theory Spec2Isabelle
  imports Complex_Main "HOL-Library.Log_Nat"
begin

section \<open>PyWhisper: the chunked transcription pipeline of \<^verbatim>\<open>whisper_gui.py\<close>\<close>

text \<open>
  The development embeds the two classes of \<^verbatim>\<open>whisper_gui.py\<close>:
  \<^verbatim>\<open>WhisperTranscriber\<close> (audio normalisation, splitting, the request sent to the
  transcription service, timestamp formatting) and the method
  \<^verbatim>\<open>WhisperGUI.start_transcription\<close> that drives them. Widgets, \<^verbatim>\<open>print\<close> calls and
  the progress bar are left out; the audio engine (pydub), the file system and the remote
  service are explicit parameters and an explicit state.
\<close>

subsection \<open>Python strings and number formatting\<close>

text \<open>Decimal digits of a natural number, as \<^verbatim>\<open>str(n)\<close> prints them.\<close>

definition digit :: "nat \<Rightarrow> char" where
  "digit d = ''0123456789'' ! d"

fun dec :: "nat \<Rightarrow> string" where
  "dec n = (if n < 10 then [digit n] else dec (n div 10) @ [digit (n mod 10)])"

declare dec.simps [simp del]

definition is_digit :: "char \<Rightarrow> bool" where
  "is_digit c = (c \<in> set ''0123456789'')"

text \<open>Left padding with zeros up to a minimal width; longer strings are kept whole.\<close>

definition zfill :: "nat \<Rightarrow> string \<Rightarrow> string" where
  "zfill w s = replicate (w - length s) (CHR ''0'') @ s"

text \<open>The format \<^verbatim>\<open>{i:0wd}\<close>: the sign comes first and counts for the width.\<close>

definition fmt_d :: "nat \<Rightarrow> int \<Rightarrow> string" where
  "fmt_d w i = (if i < 0 then CHR ''-'' # zfill (w - 1) (dec (nat (- i))) else zfill w (dec (nat i)))"

text \<open>\<^verbatim>\<open>sep.join(parts)\<close>.\<close>

fun join :: "string \<Rightarrow> string list \<Rightarrow> string" where
  "join sep [] = []"
| "join sep [x] = x"
| "join sep (x # y # ys) = x @ sep @ join sep (y # ys)"

text \<open>
  \<^verbatim>\<open>s.strip()\<close> removes the characters for which \<^verbatim>\<open>str.isspace\<close> holds. A \<^typ>\<open>char\<close>
  is one of the code points 0 to 255; there the white space is tab to carriage return,
  the four separators \<^verbatim>\<open>0x1C\<close> to \<^verbatim>\<open>0x1F\<close>, the space, \<^verbatim>\<open>0x85\<close> and \<^verbatim>\<open>0xA0\<close>.
\<close>

definition is_space :: "char \<Rightarrow> bool" where
  "is_space c = (of_char c \<in> {9, 10, 11, 12, 13, 28, 29, 30, 31, 32, 133, 160 :: nat})"

definition strip :: "string \<Rightarrow> string" where
  "strip s = rev (dropWhile is_space (rev (dropWhile is_space s)))"

text \<open>\<^verbatim>\<open>s.replace(a, b)\<close> for single characters.\<close>

definition replace_char :: "char \<Rightarrow> char \<Rightarrow> string \<Rightarrow> string" where
  "replace_char a b s = map (\<lambda>c. if c = a then b else c) s"

subsection \<open>Python floats\<close>

text \<open>
  A Python \<^verbatim>\<open>float\<close> is an IEEE 754 binary64 number. Every finite float is a rational, and
  every arithmetic operation returns the exact result rounded to the nearest number with a
  53 bit significand, ties to the even significand. The numbers of this program (byte
  counts, mebibytes, milliseconds) are far from the overflow and subnormal ranges, which
  are not modelled.

  \<open>expo x\<close> is the binary exponent of a positive \<open>x\<close>, that is
  \<open>\<lfloor>log\<^sub>2 x\<rfloor>\<close>.
\<close>

definition expo :: "rat \<Rightarrow> int" where
  "expo x = (if 1 \<le> x then bitlen \<lfloor>x\<rfloor> - 1 else - bitlen (\<lceil>1 / x\<rceil> - 1))"

text \<open>Rounding to the nearest integer, ties to even.\<close>

definition round_half_even :: "rat \<Rightarrow> int" where
  "round_half_even x =
     (let f = \<lfloor>x\<rfloor>; d = x - of_int f
      in if d < 1 / 2 then f else if 1 / 2 < d then f + 1 else if even f then f else f + 1)"

text \<open>Rounding a rational to binary64: the significand is scaled into \<open>[2\<^sup>5\<^sup>2, 2\<^sup>5\<^sup>3)\<close>.\<close>

definition round_double :: "rat \<Rightarrow> rat" where
  "round_double x =
     (if x = 0 then 0
      else let u = 2 powi (expo \<bar>x\<bar> - 52) in of_int (round_half_even (x / u)) * u)"

text \<open>
  \<^verbatim>\<open>a / b\<close> (true division, also of two integers, which Python rounds correctly) and
  \<^verbatim>\<open>a * b\<close> on floats, and the conversion \<^verbatim>\<open>float(n)\<close> that an integer operand
  undergoes when the other operand is a float.
\<close>

definition float_of_nat :: "nat \<Rightarrow> rat" where
  "float_of_nat n = round_double (of_nat n)"

definition fdiv :: "rat \<Rightarrow> rat \<Rightarrow> rat" where
  "fdiv a b = round_double (a / b)"

definition fmul :: "rat \<Rightarrow> rat \<Rightarrow> rat" where
  "fmul a b = round_double (a * b)"

definition fadd :: "rat \<Rightarrow> rat \<Rightarrow> rat" where
  "fadd a b = round_double (a + b)"

definition fsub :: "rat \<Rightarrow> rat \<Rightarrow> rat" where
  "fsub a b = round_double (a - b)"

text \<open>
  C's \<^verbatim>\<open>fmod\<close>: the exact remainder of the division truncated towards zero. On it CPython
  builds \<^verbatim>\<open>a // b\<close> and \<^verbatim>\<open>a % b\<close> for floats (\<^verbatim>\<open>_float_div_mod\<close> and \<^verbatim>\<open>float_rem\<close> in
  \<^verbatim>\<open>floatobject.c\<close>): the remainder takes the sign of the divisor, by one more addition, and
  the quotient is computed from the rounded difference and the rounded division and then
  snapped to the nearest integer. The divisors of this program are the constants 3600 and
  60, so that the \<^verbatim>\<open>ZeroDivisionError\<close> does not arise; a negative zero is not told from zero.
\<close>

definition c_fmod :: "rat \<Rightarrow> rat \<Rightarrow> rat" where
  "c_fmod a b = a - b * of_int (if 0 \<le> a / b then \<lfloor>a / b\<rfloor> else \<lceil>a / b\<rceil>)"

definition pymod :: "rat \<Rightarrow> rat \<Rightarrow> rat" where
  "pymod a b =
     (let m = c_fmod a b
      in if m \<noteq> 0 \<and> (b < 0) \<noteq> (m < 0) then fadd m b else m)"

definition floordiv :: "rat \<Rightarrow> rat \<Rightarrow> rat" where
  "floordiv a b =
     (let m = c_fmod a b;
          d0 = fdiv (fsub a m) b;
          d = (if m \<noteq> 0 \<and> (b < 0) \<noteq> (m < 0) then fsub d0 1 else d0)
      in if d \<noteq> 0
         then let f = of_int \<lfloor>d\<rfloor> in if 1 / 2 < fsub d f then fadd f 1 else f
         else 0)"

subsection \<open>Errors, files and the world outside the program\<close>

text \<open>
  A path is either a file of the user or a temporary file. \<^verbatim>\<open>tempfile.NamedTemporaryFile\<close>
  picks a fresh random name that ends with the requested suffix; the serial number stands
  for the random part.
\<close>

datatype path = UserFile string | TempFile nat string

datatype error =
    ClientNotInitialized
  | FileNotFoundError path
  | CouldntDecodeError
  | CouldntEncodeError
  | ServiceError
  | ZeroDivisionError
  | AttributeError string
  | TranscriptionError error

text \<open>One call of pydub's \<^verbatim>\<open>AudioSegment.export\<close> with its keyword arguments; the window is
  the slice \<^verbatim>\<open>audio[start:end]\<close> in milliseconds, absent for the whole audio.\<close>

record export_call =
  exp_path :: path
  exp_window :: "(nat \<times> nat) option"
  exp_format :: string
  exp_codec :: string
  exp_bitrate :: "string option"
  exp_parameters :: "string list"

text \<open>The keyword arguments of \<^verbatim>\<open>client.audio.transcriptions.create\<close>; \<open>None\<close> is Python's
  \<^verbatim>\<open>None\<close>, which the client library leaves out of the request.\<close>

record request =
  req_file :: path
  req_model :: string
  req_language :: "string option"
  req_prompt :: "string option"
  req_response_format :: string

text \<open>
  What the program cannot decide: whether \<^verbatim>\<open>load_config\<close> has set the client, whether
  the input decodes, whether the export to a path succeeds, the size of a file on disk, the length of the normalised audio in
  milliseconds (\<^verbatim>\<open>len(audio)\<close>) and the answer of the service to a request (\<open>None\<close> for
  any exception of the call; otherwise the subtitle document for the format \<^verbatim>\<open>srt\<close>, the
  field \<^verbatim>\<open>text\<close> of the answer for the format \<^verbatim>\<open>json\<close>).
\<close>

record env =
  client_ready :: bool
  decodable :: bool
  exportable :: "path \<Rightarrow> bool"
  getsize :: "path \<Rightarrow> nat"
  audio_len :: nat
  whisper :: "request \<Rightarrow> string option"

text \<open>
  The state the program changes: the files on disk (each path once), the counter of
  temporary names, the logs of export calls, of requests sent and of \<^verbatim>\<open>os.unlink\<close> calls, the text widget, the
  attribute \<^verbatim>\<open>srt_content\<close> (absent until assigned) and the status line.
\<close>

record world =
  files :: "path list"
  next_tmp :: nat
  exports :: "export_call list"
  uploads :: "request list"
  unlinks :: "path list"
  output_text :: string
  srt_content :: "string option"
  status :: string

text \<open>The variables of the widgets that \<^verbatim>\<open>start_transcription\<close> reads.\<close>

record gui =
  file_path :: string
  model_var :: string
  lang_var :: string
  prompt_text :: string
  create_srt :: bool

datatype outcome = NotStarted | Completed | Failed error

definition NamedTemporaryFile :: "string \<Rightarrow> world \<Rightarrow> path \<times> world" where
  "NamedTemporaryFile suffix w =
     (let p = TempFile (next_tmp w) suffix
      in (p, w\<lparr>files := List.insert p (files w), next_tmp := Suc (next_tmp w)\<rparr>))"

text \<open>\<^verbatim>\<open>AudioSegment.export\<close>: the call is logged; it writes the file or raises.\<close>

definition export :: "env \<Rightarrow> export_call \<Rightarrow> world \<Rightarrow> (error + unit) \<times> world" where
  "export E c w =
     (let w1 = w\<lparr>exports := exports w @ [c]\<rparr>
      in if exportable E (exp_path c)
         then (Inr (), w1\<lparr>files := List.insert (exp_path c) (files w)\<rparr>)
         else (Inl CouldntEncodeError, w1))"

text \<open>\<^verbatim>\<open>os.unlink\<close>: deleting a file that exists succeeds, a missing file raises.\<close>

definition unlink :: "path \<Rightarrow> world \<Rightarrow> (error + unit) \<times> world" where
  "unlink p w =
     (let w1 = w\<lparr>unlinks := unlinks w @ [p]\<rparr>
      in if p \<in> set (files w) then (Inr (), w1\<lparr>files := removeAll p (files w)\<rparr>)
         else (Inl (FileNotFoundError p), w1))"

definition is_temp :: "path \<Rightarrow> bool" where
  "is_temp p = (case p of TempFile _ _ \<Rightarrow> True | UserFile _ \<Rightarrow> False)"

subsection \<open>\<^verbatim>\<open>WhisperTranscriber.optimize_audio\<close>\<close>

definition normalize_settings :: "path \<Rightarrow> export_call" where
  "normalize_settings output_path =
     \<lparr>exp_path = output_path, exp_window = None, exp_format = ''ogg'', exp_codec = ''libvorbis'',
      exp_bitrate = Some ''32k'', exp_parameters = [''-ar'', ''16000'', ''-ac'', ''1'', ''-aq'', ''4'']\<rparr>"

text \<open>
  \<^verbatim>\<open>AudioSegment.from_file\<close> raises for a missing file and for one it cannot decode. The
  temporary file is created before the export, so that an export that raises leaves it on
  disk. The \<^verbatim>\<open>except\<close> clause prints and raises the same exception again.
\<close>

definition optimize_audio :: "env \<Rightarrow> path \<Rightarrow> world \<Rightarrow> (error + path) \<times> world" where
  "optimize_audio E input_file w =
     (if input_file \<notin> set (files w) then (Inl (FileNotFoundError input_file), w)
      else if \<not> decodable E then (Inl CouldntDecodeError, w)
      else case NamedTemporaryFile ''.ogg'' w of
             (output_path, w1) \<Rightarrow>
               (case export E (normalize_settings output_path) w1 of
                  (Inl e, w2) \<Rightarrow> (Inl e, w2)
                | (Inr u, w2) \<Rightarrow> (Inr output_path, w2)))"

subsection \<open>\<^verbatim>\<open>WhisperTranscriber.split_audio\<close>\<close>

text \<open>\<^verbatim>\<open>num_chunks = math.ceil(file_size_mb / chunk_size_mb)\<close> with
  \<^verbatim>\<open>file_size_mb = file_size / (1024 * 1024)\<close>, both divisions on floats.\<close>

definition num_chunks_of :: "nat \<Rightarrow> nat \<Rightarrow> nat" where
  "num_chunks_of file_size chunk_size_mb =
     (let file_size_mb = fdiv (of_nat file_size) (1024 * 1024)
      in nat \<lceil>fdiv file_size_mb (float_of_nat chunk_size_mb)\<rceil>)"

text \<open>\<^verbatim>\<open>start = int(i * chunk_duration)\<close> and \<^verbatim>\<open>end = int((i + 1) * chunk_duration)\<close>.\<close>

definition chunk_window :: "rat \<Rightarrow> nat \<Rightarrow> nat \<times> nat" where
  "chunk_window chunk_duration i =
     (nat \<lfloor>fmul (float_of_nat i) chunk_duration\<rfloor>,
      nat \<lfloor>fmul (float_of_nat (i + 1)) chunk_duration\<rfloor>)"

definition chunk_settings :: "path \<Rightarrow> nat \<times> nat \<Rightarrow> export_call" where
  "chunk_settings tmp win =
     \<lparr>exp_path = tmp, exp_window = Some win, exp_format = ''ogg'', exp_codec = ''libvorbis'',
      exp_bitrate = None, exp_parameters = [''-ar'', ''16000'', ''-ac'', ''1'', ''-aq'', ''4'']\<rparr>"

text \<open>The loop \<^verbatim>\<open>for i in range(num_chunks)\<close>, with the list \<^verbatim>\<open>chunks\<close> as accumulator; an
  export that raises leaves the loop and the function.\<close>

fun export_chunks ::
  "env \<Rightarrow> rat \<Rightarrow> nat list \<Rightarrow> path list \<Rightarrow> world \<Rightarrow> (error + path list) \<times> world" where
  "export_chunks E chunk_duration [] chunks w = (Inr chunks, w)"
| "export_chunks E chunk_duration (i # is) chunks w =
     (case NamedTemporaryFile (''_chunk'' @ dec i @ ''.ogg'') w of
        (tmp, w1) \<Rightarrow>
          (case export E (chunk_settings tmp (chunk_window chunk_duration i)) w1 of
             (Inl e, w2) \<Rightarrow> (Inl e, w2)
           | (Inr u, w2) \<Rightarrow> export_chunks E chunk_duration is (chunks @ [tmp]) w2))"

definition split_audio :: "env \<Rightarrow> path \<Rightarrow> nat \<Rightarrow> world \<Rightarrow> (error + path list) \<times> world" where
  "split_audio E input_file chunk_size_mb w =
     (let file_size = getsize E input_file
      in if file_size \<le> chunk_size_mb * 1024 * 1024 then (Inr [input_file], w)
         else if chunk_size_mb = 0 then (Inl ZeroDivisionError, w)
         else let num_chunks = num_chunks_of file_size chunk_size_mb
              in if num_chunks = 0 then (Inl ZeroDivisionError, w)
                 else export_chunks E (fdiv (of_nat (audio_len E)) (of_nat num_chunks))
                        [0..<num_chunks] [] w)"

subsection \<open>\<^verbatim>\<open>WhisperTranscriber.transcribe\<close>\<close>

text \<open>The keyword arguments built for one call; \<^verbatim>\<open>prompt_text and prompt_text.strip()\<close> is
  true for a string that is neither empty nor white space only.\<close>

definition build_request ::
  "path \<Rightarrow> string \<Rightarrow> bool \<Rightarrow> string option \<Rightarrow> string option \<Rightarrow> request" where
  "build_request audio_file model_name srt_mode prompt language =
     \<lparr>req_file = audio_file,
      req_model = model_name,
      req_language = (if language \<noteq> Some ''auto'' then language else None),
      req_prompt = (case prompt of None \<Rightarrow> None
                    | Some p \<Rightarrow> if p \<noteq> [] \<and> strip p \<noteq> [] then Some p else None),
      req_response_format = (if srt_mode then ''srt'' else ''json'')\<rparr>"

text \<open>
  The result is the pair \<^verbatim>\<open>(text, srt)\<close>. Every exception inside the \<^verbatim>\<open>try\<close> block is
  raised again as \<^verbatim>\<open>Exception("Transcription error: ...")\<close>.
\<close>

definition transcribe ::
  "env \<Rightarrow> path \<Rightarrow> string \<Rightarrow> bool \<Rightarrow> string option \<Rightarrow> string option \<Rightarrow> world
     \<Rightarrow> (error + string \<times> string option) \<times> world" where
  "transcribe E audio_file model_name srt_mode prompt language w =
     (if \<not> client_ready E then (Inl (TranscriptionError ClientNotInitialized), w)
      else if audio_file \<notin> set (files w) then (Inl (TranscriptionError (FileNotFoundError audio_file)), w)
      else let r = build_request audio_file model_name srt_mode prompt language;
               w1 = w\<lparr>uploads := uploads w @ [r]\<rparr>
           in case whisper E r of
                None \<Rightarrow> (Inl (TranscriptionError ServiceError), w1)
              | Some transcript \<Rightarrow>
                  if srt_mode then (Inr (transcript, Some transcript), w1)
                  else (Inr (transcript, None), w1))"

subsection \<open>\<^verbatim>\<open>WhisperTranscriber._format_timestamp\<close> and \<^verbatim>\<open>_generate_srt\<close>\<close>

text \<open>The format \<^verbatim>\<open>{x:06.3f}\<close>: three decimals, correctly rounded, zero padded to six
  characters.\<close>

definition fixed3 :: "rat \<Rightarrow> string" where
  "fixed3 x = (let m = nat (round_half_even (x * 1000))
               in dec (m div 1000) @ ''.'' @ zfill 3 (dec (m mod 1000)))"

definition fmt_06_3f :: "rat \<Rightarrow> string" where
  "fmt_06_3f x = (if x < 0 then CHR ''-'' # zfill 5 (fixed3 (- x)) else zfill 6 (fixed3 x))"

text \<open>
  The argument is a float, as the segments of a transcription carry them: \<^verbatim>\<open>//\<close> and \<^verbatim>\<open>%\<close>
  are the float operations, and \<^verbatim>\<open>int\<close> of the integral quotient is its value.
\<close>

definition format_timestamp :: "rat \<Rightarrow> string" where
  "format_timestamp seconds =
     (let hours = \<lfloor>floordiv seconds 3600\<rfloor>;
          minutes = \<lfloor>floordiv (pymod seconds 3600) 60\<rfloor>;
          seconds' = pymod seconds 60
      in replace_char (CHR ''.'') (CHR '','')
           (fmt_d 2 hours @ '':'' @ fmt_d 2 minutes @ '':'' @ fmt_06_3f seconds'))"

record segment =
  seg_start :: rat
  seg_end :: rat
  seg_text :: string

definition newline :: string where
  "newline = [CHR 0x0A]"

text \<open>One entry of \<^verbatim>\<open>enumerate(segments, 1)\<close>.\<close>

definition srt_entry :: "nat \<times> segment \<Rightarrow> string" where
  "srt_entry p =
     (case p of (i, seg) \<Rightarrow>
        dec i @ newline @ format_timestamp (seg_start seg) @ '' --> ''
          @ format_timestamp (seg_end seg) @ newline @ strip (seg_text seg) @ newline)"

definition generate_srt :: "segment list \<Rightarrow> string" where
  "generate_srt segments =
     join newline (map srt_entry (zip [1..<Suc (length segments)] segments))"

subsection \<open>\<^verbatim>\<open>WhisperGUI.start_transcription\<close>\<close>

text \<open>
  The loop \<^verbatim>\<open>for i, chunk in enumerate(chunks, 1)\<close> with the lists \<^verbatim>\<open>full_text\<close> and
  \<^verbatim>\<open>srt_parts\<close>. The language passed on is \<^verbatim>\<open>None\<close> for the choice \<^verbatim>\<open>auto\<close>. An exception
  of \<^verbatim>\<open>transcribe\<close> leaves the loop. Otherwise the text is appended to \<^verbatim>\<open>full_text\<close>, the
  subtitle part to \<^verbatim>\<open>srt_parts\<close> when it is neither \<^verbatim>\<open>None\<close> nor empty, and the chunk file is
  deleted inside \<^verbatim>\<open>try: ... except: pass\<close>, which drops an error of the deletion.
\<close>

fun transcribe_chunks ::
  "env \<Rightarrow> gui \<Rightarrow> path list \<Rightarrow> string list \<Rightarrow> string list \<Rightarrow> world
     \<Rightarrow> (error + string list \<times> string list) \<times> world" where
  "transcribe_chunks E G [] full_text srt_parts w = (Inr (full_text, srt_parts), w)"
| "transcribe_chunks E G (chunk # rest) full_text srt_parts w =
     (case transcribe E chunk (model_var G) (create_srt G) (Some (strip (prompt_text G)))
             (if lang_var G = ''auto'' then None else Some (lang_var G)) w of
        (Inl e, w1) \<Rightarrow> (Inl e, w1)
      | (Inr (text, srt), w1) \<Rightarrow>
          transcribe_chunks E G rest
            (full_text @ [text])
            (case srt of None \<Rightarrow> srt_parts
                       | Some s \<Rightarrow> if s \<noteq> [] then srt_parts @ [s] else srt_parts)
            (snd (unlink chunk w1)))"

text \<open>
  The attributes of a \<^verbatim>\<open>WhisperTranscriber\<close> object: the two class constants, the two
  attributes set by \<^verbatim>\<open>__init__\<close> and the methods of the class.
\<close>

definition transcriber_attributes :: "string list" where
  "transcriber_attributes =
     [''CHUNK_SIZE'', ''API_UPLOAD_URL'', ''api_key'', ''client'', ''__init__'', ''check_ffmpeg'',
      ''load_config'', ''optimize_audio'', ''split_audio'', ''transcribe'', ''_generate_srt'',
      ''_format_timestamp'']"

text \<open>
  The body of the \<^verbatim>\<open>try\<close> block once \<^verbatim>\<open>audio_file\<close> is bound. The last step evaluates
  \<^verbatim>\<open>self.transcriber.combine_srt(srt_parts)\<close>; the attribute lookup comes first and raises
  for a name the object does not have, so there is nothing to call.
\<close>

definition run_chunks :: "env \<Rightarrow> gui \<Rightarrow> path \<Rightarrow> world \<Rightarrow> (error + unit) \<times> world" where
  "run_chunks E G audio_file w =
     (case split_audio E audio_file 20 w of
        (Inl e, w1) \<Rightarrow> (Inl e, w1)
      | (Inr chunks, w1) \<Rightarrow>
          (case transcribe_chunks E G chunks [] [] w1 of
             (Inl e, w2) \<Rightarrow> (Inl e, w2)
           | (Inr (full_text, srt_parts), w2) \<Rightarrow>
               let combined_text = join (newline @ newline) full_text;
                   w3 = w2\<lparr>output_text := combined_text\<rparr>
               in if create_srt G \<and> srt_parts \<noteq> [] \<and> ''combine_srt'' \<notin> set transcriber_attributes
                  then (Inl (AttributeError ''combine_srt''), w3)
                  else (Inr (), w3)))"

text \<open>The \<^verbatim>\<open>finally\<close> block.\<close>

definition cleanup :: "path \<Rightarrow> world \<Rightarrow> world" where
  "cleanup audio_file w = (if audio_file \<in> set (files w) then snd (unlink audio_file w) else w)"

definition start_transcription :: "env \<Rightarrow> gui \<Rightarrow> world \<Rightarrow> outcome \<times> world" where
  "start_transcription E G w =
     (if file_path G = [] \<or> UserFile (file_path G) \<notin> set (files w) then (NotStarted, w)
      else case optimize_audio E (UserFile (file_path G)) w of
             (Inl e, w1) \<Rightarrow> (Failed e, w1\<lparr>status := ''Error occurred during transcription''\<rparr>)
           | (Inr audio_file, w1) \<Rightarrow>
               (case run_chunks E G audio_file w1 of
                  (Inl e, w2) \<Rightarrow>
                    (Failed e, cleanup audio_file (w2\<lparr>status := ''Error occurred during transcription''\<rparr>))
                | (Inr u, w2) \<Rightarrow>
                    (Completed, cleanup audio_file (w2\<lparr>status := ''Transcription complete!''\<rparr>))))"

text \<open>The temporary files left on disk.\<close>

definition temp_files :: "world \<Rightarrow> path list" where
  "temp_files w = filter is_temp (files w)"

subsection \<open>Notions used in the statements, and the scenarios of the examples\<close>

text \<open>The request that the loop of \<^verbatim>\<open>start_transcription\<close> sends for one chunk.\<close>

definition chunk_request :: "gui \<Rightarrow> path \<Rightarrow> request" where
  "chunk_request G chunk =
     build_request chunk (model_var G) (create_srt G) (Some (strip (prompt_text G)))
       (if lang_var G = ''auto'' then None else Some (lang_var G))"

text \<open>The entries a run has added to a log.\<close>

definition added :: "'a list \<Rightarrow> 'a list \<Rightarrow> 'a list" where
  "added before after = drop (length before) after"

text \<open>The shape \<^verbatim>\<open>HH:MM:SS,mmm\<close>: at least two digits of hours, two of minutes, two of
  seconds, a comma and three digits of milliseconds.\<close>

definition all_digits :: "string \<Rightarrow> bool" where
  "all_digits s = list_all is_digit s"

definition srt_timestamp :: "string \<Rightarrow> string \<Rightarrow> string \<Rightarrow> string \<Rightarrow> string" where
  "srt_timestamp hh mm ss mmm = hh @ '':'' @ mm @ '':'' @ ss @ '','' @ mmm"

text \<open>
  A disk with the file of the user only, and the widgets as the program starts them, with
  and without the subtitle box ticked.
\<close>

definition fresh_world :: world where
  "fresh_world =
     \<lparr>files = [UserFile ''talk.mp3''], next_tmp = 0, exports = [], uploads = [], unlinks = [],
      output_text = [], srt_content = None, status = []\<rparr>"

definition text_gui :: gui where
  "text_gui =
     \<lparr>file_path = ''talk.mp3'', model_var = ''whisper-1'', lang_var = ''auto'', prompt_text = [],
      create_srt = False\<rparr>"

definition srt_gui :: gui where
  "srt_gui = text_gui\<lparr>create_srt := True\<rparr>"

text \<open>
  A recording of four hours whose normalised file has 55 MiB, so that it is split in three,
  and one of a quarter of an hour with 2 MiB, which is not split. The service is a
  parameter.
\<close>

definition long_talk :: "(request \<Rightarrow> string option) \<Rightarrow> env" where
  "long_talk service =
     \<lparr>client_ready = True, decodable = True, exportable = (\<lambda>p. True), getsize = (\<lambda>p. 57671680), audio_len = 14400000,
      whisper = service\<rparr>"

definition short_talk :: "(request \<Rightarrow> string option) \<Rightarrow> env" where
  "short_talk service =
     \<lparr>client_ready = True, decodable = True, exportable = (\<lambda>p. True), getsize = (\<lambda>p. 2097152), audio_len = 900000,
      whisper = service\<rparr>"

text \<open>A service that always answers with one cue, and one that fails on the second chunk.\<close>

definition one_cue :: string where
  "one_cue = ''1'' @ newline @ ''00:00:00,000 --> 00:00:02,000'' @ newline @ ''hello'' @ newline"

definition always_answers :: "request \<Rightarrow> string option" where
  "always_answers r = Some one_cue"

definition fails_on_second :: "request \<Rightarrow> string option" where
  "fails_on_second r = (if req_file r = TempFile 2 ''_chunk1.ogg'' then None else Some ''hello'')"

text \<open>A recording of 9 h 10 min 0.005 s whose normalised file has 130 MiB.\<close>

definition lecture :: env where
  "lecture =
     \<lparr>client_ready = True, decodable = True, exportable = (\<lambda>p. True), getsize = (\<lambda>p. 136314880), audio_len = 33000005,
      whisper = always_answers\<rparr>"

section \<open>Properties\<close>

subsection \<open>Evaluating a run on the scenarios\<close>

lemmas run_defs = start_transcription_def optimize_audio_def NamedTemporaryFile_def export_def
  run_chunks_def split_audio_def transcribe_def unlink_def cleanup_def Let_def
  build_request_def chunk_request_def

lemma round_double_55: "round_double 55 = 55" "round_double 20 = 20"
  "\<lceil>round_double (11 / 4)\<rceil> = 3"
  by code_simp+

lemma num_chunks_55_MiB: "num_chunks_of 57671680 20 = 3"
  by (simp add: num_chunks_of_def fdiv_def float_of_nat_def round_double_55)

lemma upt_3: "[0..<3] = [0, Suc 0, Suc (Suc 0)]"
  by (simp add: upt_rec)

lemma dec_small: "dec 0 = ''0''" "dec (Suc 0) = ''1''" "dec (Suc (Suc 0)) = ''2''"
  by (simp_all add: dec.simps digit_def)

lemma exp_path_settings:
  "exp_path (normalize_settings p) = p" "exp_path (chunk_settings p win) = p"
  by (simp_all add: normalize_settings_def chunk_settings_def)

lemma one_cue_not_empty: "one_cue \<noteq> []"
  by (simp add: one_cue_def)

lemma fresh_world_logs:
  "uploads fresh_world = []" "unlinks fresh_world = []" "next_tmp fresh_world = 0"
  "output_text fresh_world = []" "srt_content fresh_world = None"
  by (simp_all add: fresh_world_def)

lemmas scenario_defs = long_talk_def short_talk_def always_answers_def fails_on_second_def
  text_gui_def srt_gui_def fresh_world_def num_chunks_55_MiB upt_3 dec_small one_cue_not_empty
  numeral_2_eq_2 numeral_3_eq_3 transcriber_attributes_def exp_path_settings

lemma run_text:
  "start_transcription (long_talk always_answers) text_gui fresh_world =
     (Completed,
      \<lparr>files = [UserFile ''talk.mp3''],
       next_tmp = 4,
       exports = [normalize_settings (TempFile 0 ''.ogg''),
                  chunk_settings (TempFile 1 ''_chunk0.ogg'') (chunk_window (fdiv 14400000 3) 0),
                  chunk_settings (TempFile 2 ''_chunk1.ogg'') (chunk_window (fdiv 14400000 3) 1),
                  chunk_settings (TempFile 3 ''_chunk2.ogg'') (chunk_window (fdiv 14400000 3) 2)],
       uploads = map (chunk_request text_gui)
                   [TempFile 1 ''_chunk0.ogg'', TempFile 2 ''_chunk1.ogg'', TempFile 3 ''_chunk2.ogg''],
       unlinks = [TempFile 1 ''_chunk0.ogg'', TempFile 2 ''_chunk1.ogg'', TempFile 3 ''_chunk2.ogg'',
                  TempFile 0 ''.ogg''],
       output_text = join (newline @ newline) [one_cue, one_cue, one_cue],
       srt_content = None,
       status = ''Transcription complete!''\<rparr>)"
  by (simp add: run_defs scenario_defs)

lemma run_subtitles:
  "start_transcription (long_talk always_answers) srt_gui fresh_world =
     (Failed (AttributeError ''combine_srt''),
      \<lparr>files = [UserFile ''talk.mp3''],
       next_tmp = 4,
       exports = [normalize_settings (TempFile 0 ''.ogg''),
                  chunk_settings (TempFile 1 ''_chunk0.ogg'') (chunk_window (fdiv 14400000 3) 0),
                  chunk_settings (TempFile 2 ''_chunk1.ogg'') (chunk_window (fdiv 14400000 3) 1),
                  chunk_settings (TempFile 3 ''_chunk2.ogg'') (chunk_window (fdiv 14400000 3) 2)],
       uploads = map (chunk_request srt_gui)
                   [TempFile 1 ''_chunk0.ogg'', TempFile 2 ''_chunk1.ogg'', TempFile 3 ''_chunk2.ogg''],
       unlinks = [TempFile 1 ''_chunk0.ogg'', TempFile 2 ''_chunk1.ogg'', TempFile 3 ''_chunk2.ogg'',
                  TempFile 0 ''.ogg''],
       output_text = join (newline @ newline) [one_cue, one_cue, one_cue],
       srt_content = None,
       status = ''Error occurred during transcription''\<rparr>)"
  by (simp add: run_defs scenario_defs)

lemma run_short:
  "start_transcription (short_talk always_answers) text_gui fresh_world =
     (Completed,
      \<lparr>files = [UserFile ''talk.mp3''],
       next_tmp = 1,
       exports = [normalize_settings (TempFile 0 ''.ogg'')],
       uploads = [chunk_request text_gui (TempFile 0 ''.ogg'')],
       unlinks = [TempFile 0 ''.ogg''],
       output_text = one_cue,
       srt_content = None,
       status = ''Transcription complete!''\<rparr>)"
  by (simp add: run_defs scenario_defs)

lemma loop_short_subtitles:
  "transcribe_chunks (short_talk always_answers) srt_gui [TempFile 0 ''.ogg''] [] []
     (fresh_world\<lparr>files := [TempFile 0 ''.ogg'', UserFile ''talk.mp3''], next_tmp := 1\<rparr>) =
     (Inr ([one_cue], [one_cue]),
      fresh_world\<lparr>next_tmp := 1, uploads := [chunk_request srt_gui (TempFile 0 ''.ogg'')],
                  unlinks := [TempFile 0 ''.ogg'']\<rparr>)"
  by (simp add: run_defs scenario_defs)

lemma run_fails_on_second:
  "start_transcription (long_talk fails_on_second) text_gui fresh_world =
     (Failed (TranscriptionError ServiceError),
      \<lparr>files = [TempFile 3 ''_chunk2.ogg'', TempFile 2 ''_chunk1.ogg'', UserFile ''talk.mp3''],
       next_tmp = 4,
       exports = [normalize_settings (TempFile 0 ''.ogg''),
                  chunk_settings (TempFile 1 ''_chunk0.ogg'') (chunk_window (fdiv 14400000 3) 0),
                  chunk_settings (TempFile 2 ''_chunk1.ogg'') (chunk_window (fdiv 14400000 3) 1),
                  chunk_settings (TempFile 3 ''_chunk2.ogg'') (chunk_window (fdiv 14400000 3) 2)],
       uploads = map (chunk_request text_gui) [TempFile 1 ''_chunk0.ogg'', TempFile 2 ''_chunk1.ogg''],
       unlinks = [TempFile 1 ''_chunk0.ogg'', TempFile 0 ''.ogg''],
       output_text = [], srt_content = None,
       status = ''Error occurred during transcription''\<rparr>)"
  by (simp add: run_defs scenario_defs)

subsection \<open>What the steps of a run change\<close>

lemma unlink_frame:
  "uploads (snd (unlink p w)) = uploads w" "output_text (snd (unlink p w)) = output_text w"
  "srt_content (snd (unlink p w)) = srt_content w" "exports (snd (unlink p w)) = exports w"
  by (simp_all add: unlink_def Let_def)

lemma cleanup_frame:
  "uploads (cleanup p w) = uploads w" "output_text (cleanup p w) = output_text w"
  "srt_content (cleanup p w) = srt_content w" "exports (cleanup p w) = exports w"
  by (simp_all add: cleanup_def unlink_frame)

lemma export_frame:
  "export E c w = (r, w') \<Longrightarrow>
     uploads w' = uploads w \<and> output_text w' = output_text w \<and> srt_content w' = srt_content w
       \<and> unlinks w' = unlinks w"
  by (auto simp: export_def Let_def split: if_splits)

lemma temporary_file_frame:
  "NamedTemporaryFile s w = (p, w') \<Longrightarrow>
     uploads w' = uploads w \<and> output_text w' = output_text w \<and> srt_content w' = srt_content w
       \<and> unlinks w' = unlinks w"
  by (auto simp: NamedTemporaryFile_def Let_def)

lemma export_chunks_frame:
  "export_chunks E cd js cs w = (r, w') \<Longrightarrow>
     uploads w' = uploads w \<and> output_text w' = output_text w \<and> srt_content w' = srt_content w
       \<and> unlinks w' = unlinks w"
proof (induction js arbitrary: cs w)
  case Nil
  then show ?case by simp
next
  case (Cons i js)
  obtain tmp w1 where tf: "NamedTemporaryFile (''_chunk'' @ dec i @ ''.ogg'') w = (tmp, w1)"
    by (cases "NamedTemporaryFile (''_chunk'' @ dec i @ ''.ogg'') w")
  obtain r2 w2 where ex: "export E (chunk_settings tmp (chunk_window cd i)) w1 = (r2, w2)"
    by (cases "export E (chunk_settings tmp (chunk_window cd i)) w1")
  note f1 = temporary_file_frame[OF tf] and f2 = export_frame[OF ex]
  show ?case
  proof (cases r2)
    case (Inl e)
    with Cons.prems tf ex have "w' = w2" by simp
    with f1 f2 show ?thesis by simp
  next
    case (Inr u)
    with Cons.prems tf ex have "export_chunks E cd js (cs @ [tmp]) w2 = (r, w')" by simp
    from Cons.IH[OF this] f1 f2 show ?thesis by simp
  qed
qed

lemma split_audio_frame:
  "split_audio E f c w = (r, w') \<Longrightarrow>
     uploads w' = uploads w \<and> output_text w' = output_text w \<and> srt_content w' = srt_content w
       \<and> unlinks w' = unlinks w"
  by (auto simp: split_audio_def Let_def split: if_splits dest: export_chunks_frame)

lemma optimize_audio_frame:
  assumes "optimize_audio E f w = (r, w')"
  shows "uploads w' = uploads w \<and> output_text w' = output_text w \<and> srt_content w' = srt_content w
       \<and> unlinks w' = unlinks w"
proof (cases "f \<notin> set (files w) \<or> \<not> decodable E")
  case True
  with assms have "w' = w" by (auto simp: optimize_audio_def split: if_splits)
  then show ?thesis by simp
next
  case False
  obtain tmp w1 where tf: "NamedTemporaryFile ''.ogg'' w = (tmp, w1)"
    by (cases "NamedTemporaryFile ''.ogg'' w")
  obtain r2 w2 where ex: "export E (normalize_settings tmp) w1 = (r2, w2)"
    by (cases "export E (normalize_settings tmp) w1")
  from assms False tf ex have "w' = w2"
    by (cases r2) (auto simp: optimize_audio_def)
  with temporary_file_frame[OF tf] export_frame[OF ex] show ?thesis by simp
qed

text \<open>A normalisation that succeeds returns the fresh temporary file and has written it.\<close>

lemma optimize_audio_success:
  assumes "optimize_audio E f w = (Inr a, w')"
  shows "a = TempFile (next_tmp w) ''.ogg''" "unlinks w' = unlinks w" "a \<in> set (files w')"
  using assms
  by (auto simp: optimize_audio_def NamedTemporaryFile_def export_def Let_def split: if_splits)

text \<open>What one call of transcribe does.\<close>

lemma transcribe_cases:
  assumes "transcribe E f m s p l w = (res, w')"
  shows "(w' = w \<and> (\<exists>e. res = Inl e)) \<or>
         (w' = w\<lparr>uploads := uploads w @ [build_request f m s p l]\<rparr> \<and>
            (case whisper E (build_request f m s p l) of
               None \<Rightarrow> res = Inl (TranscriptionError ServiceError)
             | Some t \<Rightarrow> res = Inr (t, if s then Some t else None)))"
  using assms by (auto simp: transcribe_def Let_def split: if_splits option.splits)

lemma loop_failure:
  "transcribe_chunks E G chunks ft sp w = (res, w') \<Longrightarrow>
     \<exists>new. uploads w' = uploads w @ new \<and> output_text w' = output_text w \<and>
       srt_content w' = srt_content w \<and> set new \<subseteq> chunk_request G ` set chunks \<and>
       (\<forall>r \<in> set new. whisper E r = None \<longrightarrow>
          res = Inl (TranscriptionError ServiceError) \<and> new \<noteq> [] \<and> last new = r)"
proof (induction chunks arbitrary: ft sp w)
  case Nil
  then show ?case by auto
next
  case (Cons c rest)
  let ?r = "chunk_request G c"
  obtain r1 w1 where t: "transcribe E c (model_var G) (create_srt G) (Some (strip (prompt_text G)))
             (if lang_var G = ''auto'' then None else Some (lang_var G)) w = (r1, w1)"
    by (cases "transcribe E c (model_var G) (create_srt G) (Some (strip (prompt_text G)))
             (if lang_var G = ''auto'' then None else Some (lang_var G)) w")
  have req: "build_request c (model_var G) (create_srt G) (Some (strip (prompt_text G)))
             (if lang_var G = ''auto'' then None else Some (lang_var G)) = ?r"
    by (simp add: chunk_request_def)
  from transcribe_cases[OF t] consider
      (quiet) e where "w1 = w" "r1 = Inl e"
    | (failed) "w1 = w\<lparr>uploads := uploads w @ [?r]\<rparr>" "whisper E ?r = None"
        "r1 = Inl (TranscriptionError ServiceError)"
    | (ok) t' where "w1 = w\<lparr>uploads := uploads w @ [?r]\<rparr>" "whisper E ?r = Some t'"
        "r1 = Inr (t', if create_srt G then Some t' else None)"
    unfolding req by (auto split: option.splits)
  then show ?case
  proof cases
    case quiet
    with Cons.prems t show ?thesis
      by auto
  next
    case failed
    with Cons.prems t have "res = Inl (TranscriptionError ServiceError)" "w' = w1"
      by auto
    with failed show ?thesis
      by (intro exI[of _ "[?r]"]) simp
  next
    case ok
    with Cons.prems t obtain ft2 sp2 where
      rec: "transcribe_chunks E G rest ft2 sp2 (snd (unlink c w1)) = (res, w')"
      by (auto split: if_splits)
    from Cons.IH[OF rec] obtain new where new:
      "uploads w' = uploads (snd (unlink c w1)) @ new" "output_text w' = output_text (snd (unlink c w1))"
      "srt_content w' = srt_content (snd (unlink c w1))" "set new \<subseteq> chunk_request G ` set rest"
      "\<forall>r \<in> set new. whisper E r = None \<longrightarrow>
          res = Inl (TranscriptionError ServiceError) \<and> new \<noteq> [] \<and> last new = r"
      by blast
    show ?thesis
    proof (intro exI[of _ "?r # new"] conjI ballI impI)
      show "uploads w' = uploads w @ ?r # new" using new(1) ok(1) by (simp add: unlink_frame)
      show "output_text w' = output_text w" using new(2) ok(1) by (simp add: unlink_frame)
      show "srt_content w' = srt_content w" using new(3) ok(1) by (simp add: unlink_frame)
      show "set (?r # new) \<subseteq> chunk_request G ` set (c # rest)" using new(4) by auto
    next
      fix r assume r: "r \<in> set (?r # new)" "whisper E r = None"
      with ok(2) have "r \<in> set new" by auto
      with new(5) r(2) show "res = Inl (TranscriptionError ServiceError)" "?r # new \<noteq> []"
        "last (?r # new) = r" by auto
    qed
  qed
qed


lemma run_chunks_failure:
  assumes "run_chunks E G a w = (rr, w')"
  shows "\<exists>new. uploads w' = uploads w @ new \<and> set new \<subseteq> chunk_request G ` UNIV \<and>
       (\<forall>r \<in> set new. whisper E r = None \<longrightarrow>
          rr = Inl (TranscriptionError ServiceError) \<and> new \<noteq> [] \<and> last new = r \<and>
          output_text w' = output_text w \<and> srt_content w' = srt_content w)"
proof (cases "split_audio E a 20 w")
  case (Pair sr w1)
  note fr = split_audio_frame[OF Pair]
  show ?thesis
  proof (cases sr)
    case (Inl e)
    with Pair assms have "w' = w1" by (simp add: run_chunks_def)
    with fr show ?thesis by (intro exI[of _ "[]"]) simp
  next
    case (Inr chunks)
    obtain lr w2 where loop: "transcribe_chunks E G chunks [] [] w1 = (lr, w2)"
      by (cases "transcribe_chunks E G chunks [] [] w1")
    from loop_failure[OF loop] obtain new where new:
      "uploads w2 = uploads w1 @ new" "output_text w2 = output_text w1"
      "srt_content w2 = srt_content w1" "set new \<subseteq> chunk_request G ` set chunks"
      "\<forall>r \<in> set new. whisper E r = None \<longrightarrow>
          lr = Inl (TranscriptionError ServiceError) \<and> new \<noteq> [] \<and> last new = r"
      by blast
    have up: "uploads w' = uploads w2"
      using assms Pair Inr loop by (auto simp: run_chunks_def Let_def split: sum.splits if_splits)
    have fail: "rr = Inl (TranscriptionError ServiceError) \<and> w' = w2"
      if "lr = Inl (TranscriptionError ServiceError)"
      using that assms Pair Inr loop by (simp add: run_chunks_def)
    show ?thesis
    proof (intro exI[of _ new] conjI ballI impI)
      show "uploads w' = uploads w @ new" using up new(1) fr by simp
      show "set new \<subseteq> chunk_request G ` UNIV" using new(4) by auto
    next
      fix r assume "r \<in> set new" "whisper E r = None"
      with new(5) have l: "lr = Inl (TranscriptionError ServiceError)" "new \<noteq> []" "last new = r"
        by auto
      with fail have "rr = Inl (TranscriptionError ServiceError)" "w' = w2" by auto
      with l new fr show "rr = Inl (TranscriptionError ServiceError)" "new \<noteq> []" "last new = r"
        "output_text w' = output_text w" "srt_content w' = srt_content w" by auto
    qed
  qed
qed

lemma run_uploads:
  assumes "start_transcription E G w = (out, w')"
  shows "set (added (uploads w) (uploads w')) \<subseteq> range (chunk_request G)"
proof (cases "file_path G = [] \<or> UserFile (file_path G) \<notin> set (files w)")
  case True
  with assms show ?thesis by (simp add: start_transcription_def added_def)
next
  case False
  obtain r1 w1 where opt: "optimize_audio E (UserFile (file_path G)) w = (r1, w1)"
    by (cases "optimize_audio E (UserFile (file_path G)) w")
  note fr = optimize_audio_frame[OF opt]
  show ?thesis
  proof (cases r1)
    case (Inl e)
    with assms False opt have "uploads w' = uploads w1" by (auto simp: start_transcription_def)
    with fr show ?thesis by (simp add: added_def)
  next
    case (Inr a)
    obtain rr w2 where rc: "run_chunks E G a w1 = (rr, w2)"
      by (cases "run_chunks E G a w1")
    from run_chunks_failure[OF rc] obtain new where new:
      "uploads w2 = uploads w1 @ new" "set new \<subseteq> chunk_request G ` UNIV"
      by blast
    have "uploads w' = uploads w2"
      using assms False opt Inr rc
      by (auto simp: start_transcription_def cleanup_frame split: sum.splits)
    with new fr show ?thesis by (simp add: added_def)
  qed
qed

lemma loop_success:
  "transcribe_chunks E G chunks ft sp w = (Inr (ft', sp'), w') \<Longrightarrow>
     (\<forall>c \<in> set chunks. whisper E (chunk_request G c) \<noteq> None) \<and>
     ft' = ft @ map (\<lambda>c. the (whisper E (chunk_request G c))) chunks \<and>
     sp' = sp @ (if create_srt G
                 then filter (\<lambda>s. s \<noteq> []) (map (\<lambda>c. the (whisper E (chunk_request G c))) chunks)
                 else [])"
proof (induction chunks arbitrary: ft sp w)
  case Nil
  then show ?case by simp
next
  case (Cons c rest)
  let ?r = "chunk_request G c"
  obtain r1 w1 where t: "transcribe E c (model_var G) (create_srt G) (Some (strip (prompt_text G)))
             (if lang_var G = ''auto'' then None else Some (lang_var G)) w = (r1, w1)"
    by (cases "transcribe E c (model_var G) (create_srt G) (Some (strip (prompt_text G)))
             (if lang_var G = ''auto'' then None else Some (lang_var G)) w")
  have req: "build_request c (model_var G) (create_srt G) (Some (strip (prompt_text G)))
             (if lang_var G = ''auto'' then None else Some (lang_var G)) = ?r"
    by (simp add: chunk_request_def)
  from Cons.prems t obtain x where r1: "r1 = Inr x"
    by (cases r1) auto
  with transcribe_cases[OF t] obtain t' where ok: "whisper E ?r = Some t'"
      "r1 = Inr (t', if create_srt G then Some t' else None)"
    unfolding req by (auto split: option.splits)
  with Cons.prems t have
    rec: "transcribe_chunks E G rest (ft @ [t'])
            (case (if create_srt G then Some t' else None) of None \<Rightarrow> sp
             | Some s \<Rightarrow> if s \<noteq> [] then sp @ [s] else sp) (snd (unlink c w1)) = (Inr (ft', sp'), w')"
    by simp
  from Cons.IH[OF rec] ok(1) show ?case
    by auto
qed

subsection \<open>Combining the subtitles\<close>

text \<open>
  C1. With subtitle mode on and every chunk transcribed, the run combines the subtitle parts
  of the chunks: every cue of chunk \<open>i\<close> is shifted by the start of the chunk, the cues are
  numbered by one running counter from 1, and the start times are non-decreasing.

  The code does not combine anything. \<^verbatim>\<open>start_transcription\<close> calls
  \<^verbatim>\<open>self.transcriber.combine_srt(srt_parts)\<close>, and \<^verbatim>\<open>WhisperTranscriber\<close> has no attribute of
  that name (\<^verbatim>\<open>_generate_srt\<close>, which numbers from 1, is never called). On the recording that
  is split in three, with every chunk answered, the run ends in the \<^verbatim>\<open>except\<close> branch with
  an \<^verbatim>\<open>AttributeError\<close> and \<^verbatim>\<open>srt_content\<close> is never assigned.
\<close>

theorem subtitle_run_raises_attribute_error:
  "''combine_srt'' \<notin> set transcriber_attributes \<and>
   fst (start_transcription (long_talk always_answers) srt_gui fresh_world)
     = Failed (AttributeError ''combine_srt'') \<and>
   length (uploads (snd (start_transcription (long_talk always_answers) srt_gui fresh_world))) = 3 \<and>
   srt_content (snd (start_transcription (long_talk always_answers) srt_gui fresh_world)) = None"
  by (simp add: run_subtitles transcriber_attributes_def)

subsection \<open>Temporary files after a failed run\<close>

text \<open>
  C2. After any run, successful or not, no temporary file of the run is left on disk; when
  chunk 2 of 3 fails, the chunk files and the normalised file are deleted.

  The code does not do this. In the four hour recording, split in three, the service fails
  on the second chunk: the loop has deleted the first chunk, the \<^verbatim>\<open>finally\<close> block deletes
  the normalised file, and the files of the second and third chunk stay on disk.
\<close>

theorem failed_run_leaves_chunks:
  "fst (start_transcription (long_talk fails_on_second) text_gui fresh_world)
     = Failed (TranscriptionError ServiceError) \<and>
   temp_files (snd (start_transcription (long_talk fails_on_second) text_gui fresh_world))
     = [TempFile 3 ''_chunk2.ogg'', TempFile 2 ''_chunk1.ogg'']"
  by (simp add: run_fails_on_second temp_files_def is_temp_def)

subsection \<open>The settings of the chunk export\<close>

text \<open>
  C5. Every chunk is exported with the codec and bitrate settings of the normalisation:
  Ogg Vorbis, mono, 16 kHz, at the 32 kbit/s of the normaliser.

  Format, codec and the parameters for sample rate, channels and quality are the same,
  but the export of a chunk passes no bitrate: in the run on the recording that is split in
  three, the first export (the normalisation) has \<^verbatim>\<open>bitrate='32k'\<close> and the three chunk
  exports have none.
\<close>

theorem chunk_export_has_no_bitrate:
  "map exp_bitrate
     (exports (snd (start_transcription (long_talk always_answers) text_gui fresh_world)))
     = [Some ''32k'', None, None, None] \<and>
   map exp_parameters
     (exports (snd (start_transcription (long_talk always_answers) text_gui fresh_world)))
     = replicate 4 [''-ar'', ''16000'', ''-ac'', ''1'', ''-aq'', ''4'']"
  by (simp add: run_text normalize_settings_def chunk_settings_def numeral_eq_Suc)

subsection \<open>The language and the format of a request\<close>

text \<open>
  C6. When the language option is the sentinel \<^verbatim>\<open>auto\<close>, every request of the run leaves the
  language parameter out instead of sending the sentinel, and with subtitle mode off the
  request asks for the format that is not subtitles. The widget value is translated by
  \<^verbatim>\<open>start_transcription\<close>, and \<^verbatim>\<open>transcribe\<close> itself translates the sentinel again.
\<close>

theorem auto_language_is_omitted:
  assumes "lang_var G = ''auto''"
      and "start_transcription E G w = (out, w')"
      and "r \<in> set (added (uploads w) (uploads w'))"
  shows "req_language r = None \<and> (\<not> create_srt G \<longrightarrow> req_response_format r = ''json'') \<and>
         req_language (build_request f m s p (Some ''auto'')) = None \<and>
         req_response_format (build_request f m False p l) = ''json''"
proof -
  from run_uploads[OF assms(2)] assms(3) obtain c where "r = chunk_request G c"
    by auto
  with assms(1) show ?thesis
    by (simp add: chunk_request_def build_request_def)
qed

theorem auto_language_is_omitted_witness:
  "lang_var text_gui = ''auto'' \<and>
   chunk_request text_gui (TempFile 1 ''_chunk0.ogg'')
     \<in> set (added (uploads fresh_world)
              (uploads (snd (start_transcription (long_talk always_answers) text_gui fresh_world)))) \<and>
   req_language (chunk_request text_gui (TempFile 1 ''_chunk0.ogg'')) = None \<and>
   req_response_format (chunk_request text_gui (TempFile 1 ''_chunk0.ogg'')) = ''json''"
proof -
  have h1: "lang_var text_gui = ''auto''"
    by (simp add: text_gui_def)
  have h2: "start_transcription (long_talk always_answers) text_gui fresh_world =
              (fst (start_transcription (long_talk always_answers) text_gui fresh_world),
               snd (start_transcription (long_talk always_answers) text_gui fresh_world))"
    by simp
  have h3: "chunk_request text_gui (TempFile 1 ''_chunk0.ogg'')
     \<in> set (added (uploads fresh_world)
              (uploads (snd (start_transcription (long_talk always_answers) text_gui fresh_world))))"
    by (simp add: run_text added_def fresh_world_logs)
  have h4: "\<not> create_srt text_gui"
    by (simp add: text_gui_def)
  from auto_language_is_omitted[OF h1 h2 h3] h1 h3 h4 show ?thesis
    by simp
qed

subsection \<open>A file that is not split\<close>

text \<open>
  C10. When the normalised file is not larger than the limit, \<^verbatim>\<open>split_audio\<close> returns the path
  of the normalised file itself as the only chunk, so the deletion of the chunk inside the
  loop deletes the normalised file; the \<^verbatim>\<open>finally\<close> block tests whether the file exists, so
  that on a completed run there is exactly one call of \<^verbatim>\<open>os.unlink\<close> for it. (In the model
  the deletion of a file that exists succeeds.)
\<close>

theorem single_chunk_deleted_once:
  assumes small: "getsize E (TempFile (next_tmp w) ''.ogg'') \<le> 20 * 1024 * 1024"
      and run: "start_transcription E G w = (Completed, w')"
  shows "(\<forall>w1. split_audio E (TempFile (next_tmp w) ''.ogg'') 20 w1
            = (Inr [TempFile (next_tmp w) ''.ogg''], w1)) \<and>
         added (unlinks w) (unlinks w') = [TempFile (next_tmp w) ''.ogg''] \<and>
         TempFile (next_tmp w) ''.ogg'' \<notin> set (files w') \<and>
         (\<forall>w1 res w2. transcribe_chunks E G [TempFile (next_tmp w) ''.ogg''] [] [] w1 = (Inr res, w2)
            \<longrightarrow> added (unlinks w1) (unlinks w2) = [TempFile (next_tmp w) ''.ogg''] \<and>
                cleanup (TempFile (next_tmp w) ''.ogg'') w2 = w2)"
proof -
  let ?a = "TempFile (next_tmp w) ''.ogg''"
  have split: "split_audio E ?a 20 w1 = (Inr [?a], w1)" for w1
    using small by (simp add: split_audio_def)
  have loop: "added (unlinks w1) (unlinks w2) = [?a] \<and> cleanup ?a w2 = w2 \<and> ?a \<notin> set (files w2)
                \<and> unlinks w2 = unlinks w1 @ [?a]"
    if "transcribe_chunks E G [?a] [] [] w1 = (Inr res, w2)" for w1 res w2
    using that
    by (auto simp: transcribe_def unlink_def cleanup_def added_def Let_def
             split: if_splits option.splits)
  from run have valid: "\<not> (file_path G = [] \<or> UserFile (file_path G) \<notin> set (files w))"
    by (auto simp: start_transcription_def split: if_splits)
  obtain r1 w1 where opt: "optimize_audio E (UserFile (file_path G)) w = (r1, w1)"
    by (cases "optimize_audio E (UserFile (file_path G)) w")
  with run valid obtain a where r1: "r1 = Inr a"
    by (cases r1) (auto simp: start_transcription_def)
  with opt have a: "a = ?a" and w1: "unlinks w1 = unlinks w"
    using optimize_audio_success[of E "UserFile (file_path G)" w a w1] by auto
  obtain rr w2 where rc: "run_chunks E G ?a w1 = (rr, w2)"
    by (cases "run_chunks E G ?a w1")
  with run valid opt r1 a have w': "w' = cleanup ?a (w2\<lparr>status := ''Transcription complete!''\<rparr>)"
    by (auto simp: start_transcription_def split: sum.splits)
  obtain lr w3 where lp: "transcribe_chunks E G [?a] [] [] w1 = (lr, w3)"
    by (cases "transcribe_chunks E G [?a] [] [] w1")
  from run valid opt r1 a rc obtain u where "rr = Inr u"
    by (cases rr) (auto simp: start_transcription_def)
  with rc lp obtain res where lr: "lr = Inr res" and w2: "files w2 = files w3" "unlinks w2 = unlinks w3"
    unfolding run_chunks_def split
    by (cases lr) (auto simp: Let_def split: if_splits)
  from loop[OF lp[unfolded lr]] have l: "?a \<notin> set (files w3)" "unlinks w3 = unlinks w1 @ [?a]"
    by auto
  have "added (unlinks w) (unlinks w') = [?a] \<and> ?a \<notin> set (files w')"
    using l w2 w1 by (simp add: w' cleanup_def added_def)
  with split loop show ?thesis by blast
qed

theorem single_chunk_deleted_once_witness:
  "getsize (short_talk always_answers) (TempFile (next_tmp fresh_world) ''.ogg'') \<le> 20 * 1024 * 1024 \<and>
   fst (start_transcription (short_talk always_answers) text_gui fresh_world) = Completed \<and>
   added (unlinks fresh_world)
     (unlinks (snd (start_transcription (short_talk always_answers) text_gui fresh_world)))
     = [TempFile (next_tmp fresh_world) ''.ogg''] \<and>
   TempFile (next_tmp fresh_world) ''.ogg''
     \<notin> set (files (snd (start_transcription (short_talk always_answers) text_gui fresh_world)))"
proof -
  have h1: "getsize (short_talk always_answers) (TempFile (next_tmp fresh_world) ''.ogg'')
              \<le> 20 * 1024 * 1024"
    by (simp add: short_talk_def)
  have h2: "start_transcription (short_talk always_answers) text_gui fresh_world =
              (Completed, snd (start_transcription (short_talk always_answers) text_gui fresh_world))"
    by (simp add: run_short)
  have h3: "fst (start_transcription (short_talk always_answers) text_gui fresh_world) = Completed"
    by (simp add: run_short)
  note t = single_chunk_deleted_once[OF h1 h2]
  from h1 h3 t[THEN conjunct2, THEN conjunct1] t[THEN conjunct2, THEN conjunct2, THEN conjunct1]
  show ?thesis
    by blast
qed

end
